theory Spec2Isabelle
  imports Complex_Main "HOL-Library.Sublist" "HOL-Library.Char_ord"
    "HOL-Library.List_Lexorder" "HOL-Library.Product_Lexorder"
begin

section \<open>Values, tables and frames\<close>

text \<open>
  The module \<^verbatim>\<open>afqinsight/datasets.py\<close> works on pandas data frames read from CSV
  files. A cell of a frame is a float or a string. Floats carry the three special values
  of numpy's \<^verbatim>\<open>float64\<close>; a missing cell is \<^verbatim>\<open>NaN\<close>. Finite floats are modelled by
  reals, so rounding and overflow of finite arithmetic are not modelled.
\<close>

datatype fl = Finite real | PosInf | NegInf | NaN

datatype cell = Flt fl | Str string

text \<open>The exceptions the two functions can raise, each with its message or key.\<close>

datatype error =
    KeyError string
  | ValueError string
  | TypeError string
  | UnboundLocalError string
  | FileNotFoundError string
  | MapperError

text \<open>
  A data frame: column labels, row labels (the index) and the rows, each row holding one
  cell per column. A CSV file, once parsed, is a header and rows of cells; the header
  holds the column names as pandas reports them (it numbers a repeated name, so the names
  of a parsed file are distinct). A file that holds no table is a \<open>Blob\<close>.
\<close>

record frame =
  columns :: "string list"
  index :: "cell list"
  rows :: "cell list list"

record table =
  header :: "string list"
  body :: "cell list list"

datatype content = Csv table | Blob string

text \<open>
  The file system: the content of each path, what \<^verbatim>\<open>os.stat\<close> identifies a path with
  (\<open>None\<close> when the path does not exist), and the files the program has opened for
  reading or written so far, oldest first.
\<close>

datatype access = Read string | Write string

record filesystem =
  files :: "string \<rightharpoonup> content"
  inode :: "string \<rightharpoonup> nat"
  accessed :: "access list"

subsection \<open>Paths\<close>

text \<open>
  \<^verbatim>\<open>os.path.join\<close> of two components, as posixpath defines it. \<^verbatim>\<open>os.path.abspath\<close>
  depends on the working directory and is a parameter of the model.
\<close>

definition join :: "string \<Rightarrow> string \<Rightarrow> string" where
  "join a b =
     (if b \<noteq> [] \<and> hd b = CHR ''/'' then b
      else if a = [] \<or> last a = CHR ''/'' then a @ b
      else a @ ''/'' @ b)"

definition samefile :: "filesystem \<Rightarrow> string \<Rightarrow> string \<Rightarrow> error + bool" where
  "samefile fs p q =
     (case inode fs p of
        None \<Rightarrow> Inl (FileNotFoundError p)
      | Some i \<Rightarrow>
          (case inode fs q of
             None \<Rightarrow> Inl (FileNotFoundError q)
           | Some j \<Rightarrow> Inr (i = j)))"

subsection \<open>Reading CSV files\<close>

definition RangeIndex :: "nat \<Rightarrow> cell list" where
  "RangeIndex n = map (\<lambda>i. Flt (Finite (real i))) [0..<n]"

text \<open>
  \<^verbatim>\<open>pd.read_csv(fn)\<close>: the header becomes the columns, the index counts the rows.
  Reading changes no file; \<open>load_afq_data\<close> only reads, so its model returns no file
  system.
\<close>

definition read_csv :: "filesystem \<Rightarrow> string \<Rightarrow> error + frame" where
  "read_csv fs fn =
     (case files fs fn of
        None \<Rightarrow> Inl (FileNotFoundError fn)
      | Some (Blob s) \<Rightarrow> Inl (ValueError ''Error tokenizing data'')
      | Some (Csv t) \<Rightarrow>
          (if header t = [] then Inl (ValueError ''No columns to parse from file'')
           else Inr \<lparr>columns = header t, index = RangeIndex (length (body t)),
                     rows = body t\<rparr>))"

text \<open>The cells of one row that stand under a column label.\<close>

definition cells_of :: "string \<Rightarrow> string list \<Rightarrow> cell list \<Rightarrow> cell list" where
  "cells_of label cols r = map snd (filter (\<lambda>(c, v). c = label) (zip cols r))"

definition cells_not_of :: "string list \<Rightarrow> string list \<Rightarrow> cell list \<Rightarrow> cell list" where
  "cells_not_of labels cols r = map snd (filter (\<lambda>(c, v). c \<notin> set labels) (zip cols r))"

text \<open>The cells of a frame under a column label, row by row.\<close>

definition column_values :: "frame \<Rightarrow> string \<Rightarrow> cell list" where
  "column_values df label = concat (map (cells_of label (columns df)) (rows df))"

text \<open>
  \<^verbatim>\<open>pd.read_csv(fn, index_col=name)\<close>: the named column becomes the index and leaves
  the columns.
\<close>

definition read_csv_index :: "filesystem \<Rightarrow> string \<Rightarrow> string \<Rightarrow> error + frame" where
  "read_csv_index fs fn index_col =
     (case read_csv fs fn of
        Inl e \<Rightarrow> Inl e
      | Inr df \<Rightarrow>
          (if index_col \<notin> set (columns df)
           then Inl (ValueError (''Index '' @ index_col @ '' invalid''))
           else Inr \<lparr>columns = filter (\<lambda>c. c \<noteq> index_col) (columns df),
                     index = column_values df index_col,
                     rows = map (cells_not_of [index_col] (columns df)) (rows df)\<rparr>))"

text \<open>
  \<^verbatim>\<open>pd.read_csv(fn, index_col=0)\<close>: the first column becomes the index, whatever its
  name. The name is returned with the frame.
\<close>

definition read_csv_index0 :: "filesystem \<Rightarrow> string \<Rightarrow> error + (string \<times> frame)" where
  "read_csv_index0 fs fn =
     (case read_csv fs fn of
        Inl e \<Rightarrow> Inl e
      | Inr df \<Rightarrow>
          Inr (hd (columns df),
               \<lparr>columns = tl (columns df),
                index = concat (map (take 1) (rows df)),
                rows = map (drop 1) (rows df)\<rparr>))"

subsection \<open>Frame operations\<close>

text \<open>\<^verbatim>\<open>"Unnamed:" in col\<close>: the substring test of Python strings.\<close>

fun contains :: "string \<Rightarrow> string \<Rightarrow> bool" where
  "contains s [] = (s = [])"
| "contains s (c # cs) = (take (length s) (c # cs) = s \<or> contains s cs)"

definition unnamed_cols :: "frame \<Rightarrow> string list" where
  "unnamed_cols df = filter (contains ''Unnamed:'') (columns df)"

text \<open>
  \<^verbatim>\<open>df.drop(labels, axis="columns", inplace=True)\<close> for labels that are all present,
  and with \<^verbatim>\<open>errors="ignore"\<close> for the others: every column under one of the labels
  goes.
\<close>

definition drop_columns :: "string list \<Rightarrow> frame \<Rightarrow> frame" where
  "drop_columns labels df =
     df\<lparr>columns := filter (\<lambda>c. c \<notin> set labels) (columns df),
        rows := map (cells_not_of labels (columns df)) (rows df)\<rparr>"

text \<open>\<^verbatim>\<open>df[label]\<close>: the column as a sequence of cells, or a KeyError.\<close>

definition getitem :: "frame \<Rightarrow> string \<Rightarrow> error + cell list" where
  "getitem df label =
     (if label \<in> set (columns df)
      then Inr (column_values df label)
      else Inl (KeyError label))"

text \<open>
  \<^verbatim>\<open>df[labels]\<close> and \<^verbatim>\<open>df.loc[:, labels]\<close> with a list of labels: the columns under
  each label, in the order of the list; a label that names no column is a KeyError.
\<close>

definition loc_columns :: "frame \<Rightarrow> string list \<Rightarrow> error + frame" where
  "loc_columns df labels =
     (case filter (\<lambda>l. l \<notin> set (columns df)) labels of
        m # ms \<Rightarrow> Inl (KeyError m)
      | [] \<Rightarrow>
          Inr (df\<lparr>columns := concat (map (\<lambda>l. filter (\<lambda>c. c = l) (columns df)) labels),
                  rows := map (\<lambda>r. concat (map (\<lambda>l. cells_of l (columns df) r) labels))
                            (rows df)\<rparr>))"

text \<open>
  \<^verbatim>\<open>df[label] = values\<close> and \<^verbatim>\<open>df.loc[:, label] = values\<close> for a label that is
  present: row \<open>i\<close> gets \<open>values[i]\<close> under the label.
\<close>

definition setitem :: "frame \<Rightarrow> string \<Rightarrow> cell list \<Rightarrow> frame" where
  "setitem df label vals =
     df\<lparr>rows := map (\<lambda>(r, v). map (\<lambda>(c, x). if c = label then v else x) (zip (columns df) r))
                  (zip (rows df) vals)\<rparr>"

text \<open>
  \<^verbatim>\<open>pd.DataFrame(index=subjects).merge(targets, how="left", left_index=True,
  right_index=True)\<close>: for each key of the left index, in order, the rows of \<open>targets\<close>
  under that key, or one row of missing values when there is none.
\<close>

definition merge_left :: "cell list \<Rightarrow> frame \<Rightarrow> frame" where
  "merge_left subjects targets =
     (let joined =
        concat (map (\<lambda>s.
          (case filter (\<lambda>(k, r). k = s) (zip (index targets) (rows targets)) of
             [] \<Rightarrow> [(s, replicate (length (columns targets)) (Flt NaN))]
           | m # ms \<Rightarrow> m # ms)) subjects)
      in \<lparr>columns = columns targets, index = map fst joined, rows = map snd joined\<rparr>)"

text \<open>
  What the join gives a subject when no two rows of \<open>targets\<close> share a key: the row
  under the subject's key, or a row of missing values.
\<close>

definition joined_row :: "frame \<Rightarrow> cell \<Rightarrow> cell list" where
  "joined_row t s =
     (case map_of (zip (index t) (rows t)) s of
        None \<Rightarrow> replicate (length (columns t)) (Flt NaN)
      | Some r \<Rightarrow> r)"

text \<open>A frame is rectangular when every row has one cell per column.\<close>

definition rect :: "frame \<Rightarrow> bool" where
  "rect df = list_all (\<lambda>r. length r = length (columns df)) (rows df)"

subsection \<open>numpy arrays\<close>

text \<open>
  An array of dimension 0, 1 or 2; a 2-D array carries its shape, so that an array with
  no row still has a column count. \<^verbatim>\<open>np.squeeze\<close> removes every axis of length one.
\<close>

datatype ndarray = Array0 cell | Array1 "cell list" | Array2 nat nat "cell list list"

definition to_numpy :: "frame \<Rightarrow> ndarray" where
  "to_numpy df = Array2 (length (index df)) (length (columns df)) (rows df)"

fun squeeze :: "ndarray \<Rightarrow> ndarray" where
  "squeeze (Array2 n k rs) =
     (if n = 1 \<and> k = 1 then (case concat rs of [v] \<Rightarrow> Array0 v | vs \<Rightarrow> Array1 vs)
      else if n = 1 \<or> k = 1 then Array1 (concat rs)
      else Array2 n k rs)"
| "squeeze (Array1 vs) = (case vs of [v] \<Rightarrow> Array0 v | _ \<Rightarrow> Array1 vs)"
| "squeeze (Array0 v) = Array0 v"

fun ndim :: "ndarray \<Rightarrow> nat" where
  "ndim (Array0 v) = 0"
| "ndim (Array1 vs) = 1"
| "ndim (Array2 n k rs) = 2"

subsection \<open>The label encoder\<close>

text \<open>
  \<^verbatim>\<open>sklearn.preprocessing.LabelEncoder\<close>: \<^verbatim>\<open>classes_\<close> holds the distinct values of
  the column in sorted order, a missing value last, and each value is encoded by its
  position in \<^verbatim>\<open>classes_\<close>. A column that mixes strings and numbers is a TypeError.
\<close>

fun cell_key :: "cell \<Rightarrow> nat \<times> real \<times> string" where
  "cell_key (Flt NegInf) = (0, 0, [])"
| "cell_key (Flt (Finite r)) = (1, r, [])"
| "cell_key (Flt PosInf) = (2, 0, [])"
| "cell_key (Str s) = (3, 0, s)"
| "cell_key (Flt NaN) = (4, 0, [])"

fun is_str :: "cell \<Rightarrow> bool" where
  "is_str (Str s) = True"
| "is_str (Flt x) = False"

fun is_number :: "cell \<Rightarrow> bool" where
  "is_number (Str s) = False"
| "is_number (Flt x) = (x \<noteq> NaN)"

definition np_unique :: "cell list \<Rightarrow> cell list" where
  "np_unique ys = sort_key cell_key (remdups ys)"

fun index_of :: "'a list \<Rightarrow> 'a \<Rightarrow> nat" where
  "index_of [] v = 0"
| "index_of (x # xs) v = (if x = v then 0 else Suc (index_of xs v))"

definition code_cell :: "nat \<Rightarrow> cell" where
  "code_cell n = Flt (Finite (real n))"

definition fit_transform_labels :: "cell list \<Rightarrow> error + (cell list \<times> cell list)" where
  "fit_transform_labels ys =
     (if list_ex is_str ys \<and> list_ex is_number ys
      then Inl (TypeError ''Encoders require their input to be uniformly strings or numbers'')
      else (let classes = np_unique ys
            in Inr (classes, map (\<lambda>v. code_cell (index_of classes v)) ys)))"



section \<open>load_afq_data\<close>

text \<open>
  The class \<^verbatim>\<open>AFQDataFrameMapper\<close> lives in \<^verbatim>\<open>transform.py\<close>, outside this module.
  Its \<^verbatim>\<open>fit_transform\<close> is a parameter of the model: it returns the fitted mapper
  (feature matrix, groups, feature names, subjects) or raises. The other parameters are
  \<^verbatim>\<open>os.path.abspath\<close> and the string conversion of a cell (\<^verbatim>\<open>astype(str)\<close>).
\<close>

type_synonym feature_name = "string \<times> string \<times> int"

text \<open>
  A Python dictionary: the keys in insertion order with their values. Storing under a
  key that is present replaces its value in place.
\<close>

type_synonym ('k, 'v) dict = "('k \<times> 'v) list"

fun dict_set :: "'k \<Rightarrow> 'v \<Rightarrow> ('k, 'v) dict \<Rightarrow> ('k, 'v) dict" where
  "dict_set k v [] = [(k, v)]"
| "dict_set k v ((k', v') # d) = (if k' = k then (k, v) # d else (k', v') # dict_set k v d)"

type_synonym classes = "(string, cell list) dict"

record ('x, 'g) mapper =
  mapper_X :: 'x
  mapper_groups :: 'g
  mapper_feature_names :: "feature_name list"
  mapper_subjects :: "cell list"

record ('x, 'g) library =
  abspath :: "string \<Rightarrow> string"
  astype_str :: "cell \<Rightarrow> string"
  fit_transform :: "frame \<Rightarrow> ('x, 'g) mapper option"

record load_args =
  workdir :: string
  dwi_metrics :: "string list option"
  target_cols :: "string list option"
  label_encode_cols :: "string list option"
  index_col :: string
  fn_nodes :: string
  fn_subjects :: string
  unsupervised :: bool
  concat_subject_session :: bool
  return_sessions :: bool

text \<open>
  The four tuples the function returns: without and with the sessions, unsupervised
  (5 and 6 components) and supervised (7 and 8 components).
\<close>

datatype ('x, 'g) loaded =
    Out5 'x 'g "feature_name list" "(string \<times> string) list" "cell list"
  | Out6 'x 'g "feature_name list" "(string \<times> string) list" "cell list" "cell list option"
  | Out7 'x ndarray 'g "feature_name list" "(string \<times> string) list" "cell list" classes
  | Out8 'x ndarray 'g "feature_name list" "(string \<times> string) list" "cell list"
      "cell list option" classes


fun out_subjects :: "('x, 'g) loaded \<Rightarrow> cell list" where
  "out_subjects (Out5 x g fs gs ss) = ss"
| "out_subjects (Out6 x g fs gs ss se) = ss"
| "out_subjects (Out7 x y g fs gs ss cl) = ss"
| "out_subjects (Out8 x y g fs gs ss se cl) = ss"

fun out_sessions :: "('x, 'g) loaded \<Rightarrow> cell list option option" where
  "out_sessions (Out5 x g fs gs ss) = None"
| "out_sessions (Out6 x g fs gs ss se) = Some se"
| "out_sessions (Out7 x y g fs gs ss cl) = None"
| "out_sessions (Out8 x y g fs gs ss se cl) = Some se"


subsection \<open>Lines 115 to 126: the nodes table\<close>

text \<open>
  Elementwise \<^verbatim>\<open>+\<close> of a column and a column of strings: pandas leaves a missing
  value missing, and any other float cannot be added to a string.
\<close>

fun add_str :: "cell \<Rightarrow> string \<Rightarrow> error + cell" where
  "add_str (Str s) t = Inr (Str (s @ t))"
| "add_str (Flt NaN) t = Inr (Flt NaN)"
| "add_str (Flt x) t = Inl (TypeError ''unsupported operand type(s) for +'')"

fun first_error :: "(error + 'a) list \<Rightarrow> error + 'a list" where
  "first_error [] = Inr []"
| "first_error (Inl e # rs) = Inl e"
| "first_error (Inr v # rs) = (case first_error rs of Inl e \<Rightarrow> Inl e | Inr vs \<Rightarrow> Inr (v # vs))"

text \<open>
  Line 121: \<^verbatim>\<open>nodes["subjectID"] = nodes["subjectID"] + nodes["sessionID"].astype(str)\<close>.
\<close>

definition concat_ids :: "('x, 'g) library \<Rightarrow> frame \<Rightarrow> error + frame" where
  "concat_ids lib nodes =
     (case getitem nodes ''subjectID'' of
        Inl e \<Rightarrow> Inl e
      | Inr subs \<Rightarrow>
          (case getitem nodes ''sessionID'' of
             Inl e \<Rightarrow> Inl e
           | Inr sess \<Rightarrow>
               (case first_error (map (\<lambda>(a, b). add_str a (astype_str lib b)) (zip subs sess)) of
                  Inl e \<Rightarrow> Inl e
                | Inr ids \<Rightarrow> Inr (setitem nodes ''subjectID'' ids))))"

definition key_cols :: "string list" where
  "key_cols = [''tractID'', ''nodeID'', ''subjectID'']"

text \<open>
  Lines 116 to 126, on the frame read from the nodes file: the frame handed to the mapper
  and the sessions column (\<open>None\<close> when the table has no \<^verbatim>\<open>sessionID\<close>).
\<close>

definition prepare_nodes ::
  "('x, 'g) library \<Rightarrow> load_args \<Rightarrow> frame \<Rightarrow> error + (frame \<times> cell list option)" where
  "prepare_nodes lib a nodes0 =
     (let nodes1 = drop_columns (unnamed_cols nodes0) nodes0;
          sessions = (case getitem nodes1 ''sessionID'' of Inl e \<Rightarrow> None | Inr se \<Rightarrow> Some se)
      in (case (if concat_subject_session a then concat_ids lib nodes1 else Inr nodes1) of
            Inl e \<Rightarrow> Inl e
          | Inr nodes2 \<Rightarrow>
              (let nodes3 = drop_columns [''sessionID''] nodes2
               in (case dwi_metrics a of
                     None \<Rightarrow> Inr (nodes3, sessions)
                   | Some ms \<Rightarrow>
                       (case loc_columns nodes3 (key_cols @ ms) of
                          Inl e \<Rightarrow> Inl e
                        | Inr nodes4 \<Rightarrow> Inr (nodes4, sessions))))))"


definition nodes_path :: "('x, 'g) library \<Rightarrow> load_args \<Rightarrow> string" where
  "nodes_path lib a = join (abspath lib (workdir a)) (fn_nodes a)"

definition subjects_path :: "('x, 'g) library \<Rightarrow> load_args \<Rightarrow> string" where
  "subjects_path lib a = join (abspath lib (workdir a)) (fn_subjects a)"

text \<open>Lines 111 to 126: what the mapper is called with.\<close>

definition mapper_input ::
  "('x, 'g) library \<Rightarrow> filesystem \<Rightarrow> load_args \<Rightarrow> error + (frame \<times> cell list option)" where
  "mapper_input lib fs a =
     (case read_csv fs (nodes_path lib a) of
        Inl e \<Rightarrow> Inl e
      | Inr nodes0 \<Rightarrow> prepare_nodes lib a nodes0)"

subsection \<open>Lines 141 to 173: the targets\<close>

text \<open>Lines 142 to 153: read the subjects file, drop unnamed columns, join.\<close>

definition load_targets :: "filesystem \<Rightarrow> string \<Rightarrow> string \<Rightarrow> cell list \<Rightarrow> error + frame" where
  "load_targets fs fn icol subjects =
     (case read_csv_index fs fn icol of
        Inl e \<Rightarrow> Inl e
      | Inr targets \<Rightarrow> Inr (merge_left subjects (drop_columns (unnamed_cols targets) targets)))"

text \<open>
  Lines 156 and 157: \<open>y\<close> is assigned only when \<^verbatim>\<open>target_cols\<close> is given; \<open>None\<close>
  is the unbound variable.
\<close>

definition select_targets :: "string list option \<Rightarrow> frame \<Rightarrow> error + frame option" where
  "select_targets tc targets =
     (case tc of
        None \<Rightarrow> Inr None
      | Some cols \<Rightarrow>
          (case loc_columns targets cols of Inl e \<Rightarrow> Inl e | Inr y \<Rightarrow> Inr (Some y)))"

text \<open>
  \<^verbatim>\<open>y[col]\<close> as the encoder takes it: one column is a sequence; several columns under
  the same label are a frame, which the encoder refuses.
\<close>

definition label_column :: "frame \<Rightarrow> string \<Rightarrow> error + cell list" where
  "label_column y col =
     (if col \<notin> set (columns y) then Inl (KeyError col)
      else if length (filter (\<lambda>c. c = col) (columns y)) \<noteq> 1
      then Inl (ValueError ''y should be a 1d array'')
      else getitem y col)"

text \<open>Lines 169 to 171: the loop over \<^verbatim>\<open>label_encode_cols\<close>.\<close>

fun encode_loop :: "string list \<Rightarrow> frame option \<Rightarrow> classes \<Rightarrow> error + (frame option \<times> classes)" where
  "encode_loop [] y cl = Inr (y, cl)"
| "encode_loop (col # cols) y cl =
     (case y of
        None \<Rightarrow> Inl (UnboundLocalError ''y'')
      | Some yf \<Rightarrow>
          (case label_column yf col of
             Inl e \<Rightarrow> Inl e
           | Inr ys \<Rightarrow>
               (case fit_transform_labels ys of
                  Inl e \<Rightarrow> Inl e
                | Inr (cls, codes) \<Rightarrow>
                    encode_loop cols (Some (setitem yf col codes)) (dict_set col cls cl))))"

text \<open>The error of lines 163 to 166.\<close>

definition subset_error :: error where
  "subset_error = ValueError ''label_encode_cols must be a subset of target_cols''"

text \<open>
  Lines 160 to 171. \<^verbatim>\<open>set(target_cols)\<close> of a missing \<^verbatim>\<open>target_cols\<close> is a
  TypeError.
\<close>

definition label_encode ::
  "string list option \<Rightarrow> string list option \<Rightarrow> frame option \<Rightarrow> error + (frame option \<times> classes)" where
  "label_encode lc tc y =
     (case lc of
        None \<Rightarrow> Inr (y, [])
      | Some cols \<Rightarrow>
          (case tc of
             None \<Rightarrow> Inl (TypeError ''NoneType object is not iterable'')
           | Some tcs \<Rightarrow>
               (if \<not> set cols \<subseteq> set tcs
                then Inl subset_error
                else encode_loop cols y [])))"

text \<open>Lines 141 to 171: the frame \<open>y\<close> and the classes, before line 173 squeezes.\<close>

definition encoded_targets ::
  "filesystem \<Rightarrow> string \<Rightarrow> load_args \<Rightarrow> cell list \<Rightarrow> error + (frame option \<times> classes)" where
  "encoded_targets fs fn a subjects =
     (case load_targets fs fn (index_col a) subjects of
        Inl e \<Rightarrow> Inl e
      | Inr targets \<Rightarrow>
          (case select_targets (target_cols a) targets of
             Inl e \<Rightarrow> Inl e
           | Inr y \<Rightarrow> label_encode (label_encode_cols a) (target_cols a) y))"

subsection \<open>The function\<close>

definition group_names_of :: "feature_name list \<Rightarrow> (string \<times> string) list" where
  "group_names_of fnames = map (\<lambda>(a, b, n). (a, b)) (filter (\<lambda>(a, b, n). n = 0) fnames)"

text \<open>Lines 135 to 139 and 175 to 187: the tuple that is returned.\<close>

definition unsupervised_output ::
  "load_args \<Rightarrow> ('x, 'g) mapper \<Rightarrow> cell list option \<Rightarrow> ('x, 'g) loaded" where
  "unsupervised_output a m sessions =
     (let X = mapper_X m;
          groups = mapper_groups m;
          feature_names = mapper_feature_names m;
          group_names = group_names_of feature_names;
          subjects = mapper_subjects m
      in if return_sessions a
         then Out6 X groups feature_names group_names subjects sessions
         else Out5 X groups feature_names group_names subjects)"

definition supervised_output ::
  "load_args \<Rightarrow> ('x, 'g) mapper \<Rightarrow> cell list option \<Rightarrow> ndarray \<Rightarrow> classes \<Rightarrow> ('x, 'g) loaded" where
  "supervised_output a m sessions y cl =
     (let X = mapper_X m;
          groups = mapper_groups m;
          feature_names = mapper_feature_names m;
          group_names = group_names_of feature_names;
          subjects = mapper_subjects m
      in if return_sessions a
         then Out8 X y groups feature_names group_names subjects sessions cl
         else Out7 X y groups feature_names group_names subjects cl)"

definition load_afq_data ::
  "('x, 'g) library \<Rightarrow> filesystem \<Rightarrow> load_args \<Rightarrow> error + ('x, 'g) loaded" where
  "load_afq_data lib fs a =
     (case mapper_input lib fs a of
        Inl e \<Rightarrow> Inl e
      | Inr (nodes, sessions) \<Rightarrow>
          (case fit_transform lib nodes of
             None \<Rightarrow> Inl MapperError
           | Some m \<Rightarrow>
               (if unsupervised a then Inr (unsupervised_output a m sessions)
                else (case encoded_targets fs (subjects_path lib a) a (mapper_subjects m) of
                        Inl e \<Rightarrow> Inl e
                      | Inr (y, cl) \<Rightarrow>
                          (case y of
                             None \<Rightarrow> Inl (UnboundLocalError ''y'')
                           | Some yf \<Rightarrow>
                               Inr (supervised_output a m sessions
                                      (squeeze (to_numpy yf)) cl))))))"

text \<open>
  Lines 111 to 153 of a supervised call: the fitted mapper, the sessions and the targets
  after the join.
\<close>

definition merged_targets ::
  "('x, 'g) library \<Rightarrow> filesystem \<Rightarrow> load_args \<Rightarrow>
     error + (('x, 'g) mapper \<times> cell list option \<times> frame)" where
  "merged_targets lib fs a =
     (case mapper_input lib fs a of
        Inl e \<Rightarrow> Inl e
      | Inr (nodes, sessions) \<Rightarrow>
          (case fit_transform lib nodes of
             None \<Rightarrow> Inl MapperError
           | Some m \<Rightarrow>
               (case load_targets fs (subjects_path lib a) (index_col a) (mapper_subjects m) of
                  Inl e \<Rightarrow> Inl e
                | Inr targets \<Rightarrow> Inr (m, sessions, targets))))"

section \<open>output_beta_to_afq\<close>

subsection \<open>Float arithmetic with the special values\<close>

fun fl_neg :: "fl \<Rightarrow> fl" where
  "fl_neg (Finite a) = Finite (- a)"
| "fl_neg PosInf = NegInf"
| "fl_neg NegInf = PosInf"
| "fl_neg NaN = NaN"

fun fl_add :: "fl \<Rightarrow> fl \<Rightarrow> fl" where
  "fl_add NaN y = NaN"
| "fl_add x NaN = NaN"
| "fl_add (Finite a) (Finite b) = Finite (a + b)"
| "fl_add (Finite a) y = y"
| "fl_add x (Finite b) = x"
| "fl_add PosInf PosInf = PosInf"
| "fl_add NegInf NegInf = NegInf"
| "fl_add PosInf NegInf = NaN"
| "fl_add NegInf PosInf = NaN"

definition fl_sub :: "fl \<Rightarrow> fl \<Rightarrow> fl" where
  "fl_sub x y = fl_add x (fl_neg y)"

text \<open>The sign of a float that is not NaN: \<open>True\<close> for negative. Zero counts as positive.\<close>

fun negative :: "fl \<Rightarrow> bool" where
  "negative (Finite a) = (a < 0)"
| "negative PosInf = False"
| "negative NegInf = True"
| "negative NaN = False"

definition signed_inf :: "bool \<Rightarrow> fl" where
  "signed_inf neg = (if neg then NegInf else PosInf)"

fun fl_mul :: "fl \<Rightarrow> fl \<Rightarrow> fl" where
  "fl_mul NaN y = NaN"
| "fl_mul x NaN = NaN"
| "fl_mul (Finite a) (Finite b) = Finite (a * b)"
| "fl_mul (Finite a) y = (if a = 0 then NaN else signed_inf (negative (Finite a) \<noteq> negative y))"
| "fl_mul x (Finite b) = (if b = 0 then NaN else signed_inf (negative x \<noteq> negative (Finite b)))"
| "fl_mul x y = signed_inf (negative x \<noteq> negative y)"

fun fl_div :: "fl \<Rightarrow> fl \<Rightarrow> fl" where
  "fl_div NaN y = NaN"
| "fl_div x NaN = NaN"
| "fl_div (Finite a) (Finite b) =
     (if b = 0 then (if a = 0 then NaN else signed_inf (a < 0)) else Finite (a / b))"
| "fl_div (Finite a) y = Finite 0"
| "fl_div x (Finite b) = signed_inf (negative x \<noteq> negative (Finite b))"
| "fl_div x y = NaN"

fun fl_sqrt :: "fl \<Rightarrow> fl" where
  "fl_sqrt (Finite a) = (if a < 0 then NaN else Finite (sqrt a))"
| "fl_sqrt PosInf = PosInf"
| "fl_sqrt NegInf = NaN"
| "fl_sqrt NaN = NaN"

definition fl_sum :: "fl list \<Rightarrow> fl" where
  "fl_sum xs = foldl fl_add (Finite 0) xs"

text \<open>
  \<^verbatim>\<open>Series.mean()\<close> and \<^verbatim>\<open>Series.std()\<close> of pandas: missing values are skipped, the
  standard deviation divides by the count less one, and both are NaN when too few
  values remain.
\<close>

definition fl_mean :: "fl list \<Rightarrow> fl" where
  "fl_mean xs =
     (let vs = filter (\<lambda>x. x \<noteq> NaN) xs
      in if vs = [] then NaN else fl_div (fl_sum vs) (Finite (real (length vs))))"

definition fl_std :: "fl list \<Rightarrow> fl" where
  "fl_std xs =
     (let vs = filter (\<lambda>x. x \<noteq> NaN) xs;
          avg = fl_mean xs
      in if length vs \<le> 1 then NaN
         else fl_sqrt (fl_div (fl_sum (map (\<lambda>x. fl_mul (fl_sub avg x) (fl_sub avg x)) vs))
                         (Finite (real (length vs - 1)))))"

text \<open>\<^verbatim>\<open>.replace([np.inf, -np.inf], 1)\<close>.\<close>

fun replace_inf :: "fl \<Rightarrow> fl" where
  "replace_inf PosInf = Finite 1"
| "replace_inf NegInf = Finite 1"
| "replace_inf x = x"

subsection \<open>Lines 253 to 260: the frame of the coefficients\<close>

text \<open>
  A column key of the feature matrix: tract, metric and node. The argument
  \<^verbatim>\<open>columns\<close> is the multi-index of these keys, with levels named \<^verbatim>\<open>tractID\<close>,
  \<^verbatim>\<open>metric\<close> and \<^verbatim>\<open>nodeID\<close>.
\<close>

type_synonym column_key = "cell \<times> string \<times> cell"

record beta_args =
  beta_hat :: "fl list"
  beta_columns :: "column_key list"
  workdir_in :: string
  workdir_out :: string
  fn_nodes_in :: string
  fn_subjects_in :: string
  fn_nodes_out :: string
  fn_subjects_out :: string
  scale_beta :: bool

definition key_position :: "column_key \<Rightarrow> cell \<times> cell" where
  "key_position k = (case k of (t, m, n) \<Rightarrow> (t, n))"

definition key_metric :: "column_key \<Rightarrow> string" where
  "key_metric k = (case k of (t, m, n) \<Rightarrow> m)"

definition position_key :: "cell \<times> cell \<Rightarrow> (nat \<times> real \<times> string) \<times> (nat \<times> real \<times> string)" where
  "position_key p = (cell_key (fst p), cell_key (snd p))"

text \<open>
  Lines 253 to 258: one row holding the coefficients under their keys, transposed, and
  the metric level unstacked: one row per (tract, node) pair, in sorted order, one column
  per metric, in sorted order, and NaN where the keys have no entry. The two remaining
  levels then become the columns \<^verbatim>\<open>tractID\<close> and \<^verbatim>\<open>nodeID\<close>.
\<close>

definition unstack_metric :: "column_key list \<Rightarrow> fl list \<Rightarrow> error + frame" where
  "unstack_metric keys beta =
     (if keys = [] then Inl (ValueError ''cannot set a frame with no defined columns'')
      else if length beta \<noteq> length keys
      then Inl (ValueError ''cannot set a row with mismatched columns'')
      else if \<not> distinct keys
      then Inl (ValueError ''Index contains duplicate entries, cannot reshape'')
      else (let metrics = sort (remdups (map key_metric keys));
                positions = sort_key position_key (remdups (map key_position keys))
            in if ''tractID'' \<in> set metrics \<or> ''nodeID'' \<in> set metrics
               then Inl (ValueError ''cannot insert, already exists'')
               else Inr \<lparr>columns = [''tractID'', ''nodeID''] @ metrics,
                         index = RangeIndex (length positions),
                         rows = map (\<lambda>(t, n). [t, n] @
                                  map (\<lambda>m. (case map_of (zip keys beta) (t, m, n) of
                                               None \<Rightarrow> Flt NaN
                                             | Some x \<Rightarrow> Flt x)) metrics) positions\<rparr>))"

text \<open>\<^verbatim>\<open>df[label] = scalar\<close>: the column is overwritten, or added as the last one.\<close>

definition assign_scalar :: "frame \<Rightarrow> string \<Rightarrow> cell \<Rightarrow> frame" where
  "assign_scalar df label v =
     (if label \<in> set (columns df) then setitem df label (replicate (length (rows df)) v)
      else df\<lparr>columns := columns df @ [label], rows := map (\<lambda>r. r @ [v]) (rows df)\<rparr>)"

definition beta_frame :: "column_key list \<Rightarrow> fl list \<Rightarrow> frame \<Rightarrow> error + frame" where
  "beta_frame keys beta df_nodes =
     (case unstack_metric keys beta of
        Inl e \<Rightarrow> Inl e
      | Inr df_beta \<Rightarrow>
          loc_columns (assign_scalar df_beta ''subjectID'' (Str ''beta_hat'')) (columns df_nodes))"

subsection \<open>Lines 262 to 297: scaling\<close>

text \<open>Elementwise \<^verbatim>\<open>==\<close>: a missing value equals nothing, itself included.\<close>

definition py_eq :: "cell \<Rightarrow> cell \<Rightarrow> bool" where
  "py_eq a b = (a = b \<and> a \<noteq> Flt NaN)"

text \<open>\<^verbatim>\<open>df["tractID"] == tract\<close>, for one row.\<close>

definition in_tract :: "string list \<Rightarrow> cell \<Rightarrow> cell list \<Rightarrow> bool" where
  "in_tract cols tract r = list_ex (\<lambda>c. py_eq c tract) (cells_of ''tractID'' cols r)"

text \<open>\<^verbatim>\<open>df.drop(labels, axis="columns")\<close>: a label that names no column is a KeyError.\<close>

definition drop_strict :: "string list \<Rightarrow> frame \<Rightarrow> error + frame" where
  "drop_strict labels df =
     (case filter (\<lambda>l. l \<notin> set (columns df)) labels of
        m # ms \<Rightarrow> Inl (KeyError m)
      | [] \<Rightarrow> Inr (drop_columns labels df))"

fun to_fl :: "cell \<Rightarrow> error + fl" where
  "to_fl (Flt x) = Inr x"
| "to_fl (Str s) = Inl (TypeError ''could not convert string to float'')"

text \<open>The values of one metric over the rows of one tract, and their mean and deviation.\<close>

definition tract_slice :: "frame \<Rightarrow> cell \<Rightarrow> string \<Rightarrow> cell list" where
  "tract_slice df tract m =
     concat (map (cells_of m (columns df)) (filter (in_tract (columns df) tract) (rows df)))"

definition slice_stats :: "frame \<Rightarrow> cell \<Rightarrow> string \<Rightarrow> error + (fl \<times> fl)" where
  "slice_stats df tract m =
     (case first_error (map to_fl (tract_slice df tract m)) of
        Inl e \<Rightarrow> Inl e
      | Inr xs \<Rightarrow> Inr (fl_mean xs, fl_std xs))"

text \<open>Line 295: \<^verbatim>\<open>f_mean + (x - b_mean) * f_std.divide(b_std).replace([inf, -inf], 1)\<close>.\<close>

definition scale_value :: "fl \<times> fl \<Rightarrow> fl \<times> fl \<Rightarrow> fl \<Rightarrow> fl" where
  "scale_value f b x =
     fl_add (fst f) (fl_mul (fl_sub x (fst b)) (replace_inf (fl_div (snd f) (snd b))))"

fun scale_cell :: "((fl \<times> fl) \<times> (fl \<times> fl)) option \<Rightarrow> cell \<Rightarrow> error + cell" where
  "scale_cell None x = Inr x"
| "scale_cell (Some (f, b)) (Flt x) = Inr (Flt (scale_value f b x))"
| "scale_cell (Some (f, b)) (Str s) = Inl (TypeError ''unsupported operand type(s) for -'')"

text \<open>The statistics of every metric column, for one tract: those of the nodes table
  and those of the coefficients.\<close>

definition tract_stats ::
  "frame \<Rightarrow> frame \<Rightarrow> cell \<Rightarrow> string list \<Rightarrow> error + (string \<times> (fl \<times> fl) \<times> (fl \<times> fl)) list" where
  "tract_stats df_nodes df_beta tract metrics =
     first_error (map (\<lambda>m.
       (case slice_stats df_nodes tract m of
          Inl e \<Rightarrow> Inl e
        | Inr f \<Rightarrow>
            (case slice_stats df_beta tract m of
               Inl e \<Rightarrow> Inl e
             | Inr b \<Rightarrow> Inr (m, f, b)))) metrics)"

text \<open>One pass of the loop of line 269.\<close>

definition scale_tract :: "frame \<Rightarrow> cell \<Rightarrow> frame \<Rightarrow> error + frame" where
  "scale_tract df_nodes tract df_beta =
     (case drop_strict [''tractID'', ''subjectID'', ''nodeID''] df_nodes of
        Inl e \<Rightarrow> Inl e
      | Inr f_cols \<Rightarrow>
          (case drop_strict [''tractID'', ''subjectID'', ''nodeID''] df_beta of
             Inl e \<Rightarrow> Inl e
           | Inr b_cols \<Rightarrow>
               (case tract_stats df_nodes df_beta tract (columns b_cols) of
                  Inl e \<Rightarrow> Inl e
                | Inr stats \<Rightarrow>
                    (case first_error (map (\<lambda>r.
                            if in_tract (columns df_beta) tract r
                            then first_error (map (\<lambda>(c, x). scale_cell (map_of stats c) x)
                                                (zip (columns df_beta) r))
                            else Inr r) (rows df_beta)) of
                       Inl e \<Rightarrow> Inl e
                     | Inr rs \<Rightarrow> Inr (df_beta\<lparr>rows := rs\<rparr>)))))"

fun scale_loop :: "frame \<Rightarrow> cell list \<Rightarrow> frame \<Rightarrow> error + frame" where
  "scale_loop df_nodes [] df_beta = Inr df_beta"
| "scale_loop df_nodes (tract # tracts) df_beta =
     (case scale_tract df_nodes tract df_beta of
        Inl e \<Rightarrow> Inl e
      | Inr df \<Rightarrow> scale_loop df_nodes tracts df)"

text \<open>Lines 262 to 297. \<^verbatim>\<open>unique()\<close> keeps the order of first appearance.\<close>

definition scale :: "frame \<Rightarrow> frame \<Rightarrow> error + frame" where
  "scale df_nodes df_beta =
     (case getitem df_nodes ''tractID'' of
        Inl e \<Rightarrow> Inl e
      | Inr tracts \<Rightarrow> scale_loop df_nodes (rev (remdups (rev tracts))) df_beta)"

subsection \<open>Lines 299 to 318: the output files\<close>

text \<open>\<^verbatim>\<open>pd.concat([a, b], axis="rows", ignore_index=True)\<close> of frames with the same columns.\<close>

definition concat_rows :: "frame \<Rightarrow> frame \<Rightarrow> frame" where
  "concat_rows a b =
     \<lparr>columns = columns a, index = RangeIndex (length (rows a) + length (rows b)),
      rows = rows a @ rows b\<rparr>"

definition opened :: "access \<Rightarrow> filesystem \<Rightarrow> filesystem" where
  "opened ev fs = fs\<lparr>accessed := accessed fs @ [ev]\<rparr>"

definition write_table :: "string \<Rightarrow> table \<Rightarrow> filesystem \<Rightarrow> filesystem" where
  "write_table fn t fs = opened (Write fn) (fs\<lparr>files := (files fs)(fn \<mapsto> Csv t)\<rparr>)"

text \<open>\<^verbatim>\<open>df.to_csv(fn, index=False)\<close> and \<^verbatim>\<open>df.to_csv(fn, index=True)\<close>, the latter with
  the name of the index column.\<close>

definition to_csv :: "frame \<Rightarrow> string \<Rightarrow> filesystem \<Rightarrow> filesystem" where
  "to_csv df fn fs = write_table fn \<lparr>header = columns df, body = rows df\<rparr> fs"

definition to_csv_index :: "string \<Rightarrow> frame \<Rightarrow> string \<Rightarrow> filesystem \<Rightarrow> filesystem" where
  "to_csv_index name df fn fs =
     write_table fn \<lparr>header = name # columns df,
                     body = map (\<lambda>(k, r). k # r) (zip (index df) (rows df))\<rparr> fs"

text \<open>
  Lines 303 to 305: \<^verbatim>\<open>df.loc[label] = row\<close> with a dictionary. The row is aligned with
  the columns by key. A label that is no row label yet appends the row; one that is
  overwrites the rows under it.
\<close>

definition subject_row :: "frame \<Rightarrow> (string, cell) dict" where
  "subject_row df =
     dict_set ''subjectID'' (Str ''beta_hat'') (map (\<lambda>key. (key, Str [])) (columns df))"

definition loc_set_row :: "frame \<Rightarrow> cell \<Rightarrow> (string, cell) dict \<Rightarrow> error + frame" where
  "loc_set_row df label d =
     (let new_row = map (\<lambda>c. (case map_of d c of None \<Rightarrow> Flt NaN | Some v \<Rightarrow> v)) (columns df)
      in if label \<in> set (index df)
         then Inr (df\<lparr>rows := map (\<lambda>(k, r). if k = label then new_row else r)
                                (zip (index df) (rows df))\<rparr>)
         else if columns df = [] then Inl (ValueError ''cannot set a frame with no defined columns'')
         else Inr (df\<lparr>index := index df @ [label], rows := rows df @ [new_row]\<rparr>))"

text \<open>\<^verbatim>\<open>shutil.copyfile\<close>.\<close>

definition copyfile :: "string \<Rightarrow> string \<Rightarrow> filesystem \<Rightarrow> error + filesystem" where
  "copyfile src dst fs =
     (case files fs src of
        None \<Rightarrow> Inl (FileNotFoundError src)
      | Some c \<Rightarrow> Inr (opened (Write dst) (opened (Read src) (fs\<lparr>files := (files fs)(dst \<mapsto> c)\<rparr>))))"

subsection \<open>The function\<close>

text \<open>
  The result is the pair of output paths or the exception, together with the file system
  the call leaves behind.
\<close>

definition output_beta_to_afq ::
  "('x, 'g) library \<Rightarrow> beta_args \<Rightarrow> filesystem \<Rightarrow> (error + string \<times> string) \<times> filesystem" where
  "output_beta_to_afq lib b fs =
     (let wd_in = abspath lib (workdir_in b);
          nodes_in = join wd_in (fn_nodes_in b);
          subjects_in = join wd_in (fn_subjects_in b);
          wd_out = abspath lib (workdir_out b);
          nodes_out = join wd_out (fn_nodes_out b);
          subjects_out = join wd_out (fn_subjects_out b)
      in (case samefile fs wd_in wd_out of
            Inl e \<Rightarrow> (Inl e, fs)
          | Inr True \<Rightarrow> (Inl (ValueError ''output directory equals input directory''), fs)
          | Inr False \<Rightarrow>
              (let fs1 = opened (Read nodes_in) fs
               in (case read_csv fs1 nodes_in of
                     Inl e \<Rightarrow> (Inl e, fs1)
                   | Inr df_nodes \<Rightarrow>
                       (case beta_frame (beta_columns b) (beta_hat b) df_nodes of
                          Inl e \<Rightarrow> (Inl e, fs1)
                        | Inr df_beta0 \<Rightarrow>
                            (case (if scale_beta b then scale df_nodes df_beta0 else Inr df_beta0) of
                               Inl e \<Rightarrow> (Inl e, fs1)
                             | Inr df_beta \<Rightarrow>
                                 (let fs2 = to_csv (concat_rows df_nodes df_beta) nodes_out fs1;
                                      fs3 = opened (Read subjects_in) fs2
                                  in (case read_csv_index0 fs3 subjects_in of
                                        Inl e \<Rightarrow> (Inl e, fs3)
                                      | Inr (index_name, df_subjects) \<Rightarrow>
                                          (case loc_set_row df_subjects
                                                  (Flt (Finite (real (length (rows df_subjects)))))
                                                  (subject_row df_subjects) of
                                             Inl e \<Rightarrow> (Inl e, fs3)
                                           | Inr df_subjects1 \<Rightarrow>
                                               (let fs4 = to_csv_index index_name df_subjects1
                                                            subjects_out fs3
                                                in (case copyfile (join wd_in ''streamlines.json'')
                                                           (join wd_out ''streamlines.json'') fs4 of
                                                      Inl e \<Rightarrow> (Inl e, fs4)
                                                    | Inr fs5 \<Rightarrow>
                                                        (case copyfile (join wd_in ''params.json'')
                                                                (join wd_out ''params.json'') fs5 of
                                                           Inl e \<Rightarrow> (Inl e, fs5)
                                                         | Inr fs6 \<Rightarrow>
                                                             (Inr (nodes_out, subjects_out), fs6)))))))))))))"

subsection \<open>The rows that are added\<close>




text \<open>The paths of lines 236 to 242 and of the two files that are copied.\<close>

definition nodes_in :: "('x, 'g) library \<Rightarrow> beta_args \<Rightarrow> string" where
  "nodes_in lib b = join (abspath lib (workdir_in b)) (fn_nodes_in b)"

definition subjects_in :: "('x, 'g) library \<Rightarrow> beta_args \<Rightarrow> string" where
  "subjects_in lib b = join (abspath lib (workdir_in b)) (fn_subjects_in b)"

definition nodes_out :: "('x, 'g) library \<Rightarrow> beta_args \<Rightarrow> string" where
  "nodes_out lib b = join (abspath lib (workdir_out b)) (fn_nodes_out b)"

definition subjects_out :: "('x, 'g) library \<Rightarrow> beta_args \<Rightarrow> string" where
  "subjects_out lib b = join (abspath lib (workdir_out b)) (fn_subjects_out b)"



section \<open>Example data\<close>

text \<open>
  Modelled from the spec: the mapper of the examples. \<^verbatim>\<open>transform.py\<close> is not among
  the sources; the spec has the pivot give the feature matrix one row per distinct
  subject. The mapper of the examples returns one subject per distinct \<^verbatim>\<open>subjectID\<close>
  of the frame it is given, in order of first appearance, and no features.
\<close>

definition ex_lib :: "(unit, unit) library" where
  "ex_lib =
     \<lparr>abspath = (\<lambda>p. p),
      astype_str = (\<lambda>c. (case c of Str s \<Rightarrow> s | Flt x \<Rightarrow> ''nan'')),
      fit_transform = (\<lambda>df.
        (case getitem df ''subjectID'' of
           Inl e \<Rightarrow> None
         | Inr ids \<Rightarrow> Some \<lparr>mapper_X = (), mapper_groups = (), mapper_feature_names = [],
                            mapper_subjects = remdups ids\<rparr>))\<rparr>"

text \<open>Nodes tables: two subjects, and one subject with two nodes and a session.\<close>

definition nodes_two :: table where
  "nodes_two =
     \<lparr>header = [''subjectID'', ''tractID'', ''nodeID'', ''fa''],
      body = [[Str ''A'', Str ''CST'', Flt (Finite 0), Flt (Finite 1)],
              [Str ''A'', Str ''CST'', Flt (Finite 1), Flt (Finite 1)],
              [Str ''B'', Str ''CST'', Flt (Finite 0), Flt (Finite 1)]]\<rparr>"

definition nodes_one :: table where
  "nodes_one =
     \<lparr>header = [''subjectID'', ''sessionID'', ''tractID'', ''nodeID'', ''fa''],
      body = [[Str ''A'', Str ''s1'', Str ''CST'', Flt (Finite 0), Flt (Finite 1)],
              [Str ''A'', Str ''s1'', Str ''CST'', Flt (Finite 1), Flt (Finite 1)]]\<rparr>"

text \<open>
  Subjects tables: one that misses subject A and has a subject C of its own, one with
  subject A alone, one with two rows for subject A, and one with subjects A and B.
\<close>

definition subjects_two :: table where
  "subjects_two =
     \<lparr>header = [''Unnamed: 0'', ''subjectID'', ''sex'', ''age''],
      body = [[Flt (Finite 0), Str ''B'', Str ''M'', Flt (Finite 30)],
              [Flt (Finite 1), Str ''C'', Str ''F'', Flt (Finite 31)]]\<rparr>"

definition subjects_one :: table where
  "subjects_one =
     \<lparr>header = [''Unnamed: 0'', ''subjectID'', ''sex'', ''age''],
      body = [[Flt (Finite 0), Str ''A'', Str ''M'', Flt (Finite 30)]]\<rparr>"



definition ex_fs :: "table \<Rightarrow> table \<Rightarrow> filesystem" where
  "ex_fs nodes subjects =
     \<lparr>files = [''/d/nodes.csv'' \<mapsto> Csv nodes, ''/d/subjects.csv'' \<mapsto> Csv subjects,
               ''/d/streamlines.json'' \<mapsto> Blob ''{}'', ''/d/params.json'' \<mapsto> Blob ''{}''],
      inode = [''/d'' \<mapsto> 1, ''/o'' \<mapsto> 2],
      accessed = []\<rparr>"

definition ex_args :: load_args where
  "ex_args =
     \<lparr>workdir = ''/d'', dwi_metrics = None, target_cols = Some [''sex'', ''age''],
      label_encode_cols = Some [''sex''], index_col = ''subjectID'',
      fn_nodes = ''nodes.csv'', fn_subjects = ''subjects.csv'', unsupervised = False,
      concat_subject_session = False, return_sessions = False\<rparr>"



text \<open>Coefficients for the nodes table \<open>nodes_two\<close>: one tract, one metric, two nodes.\<close>

definition ex_beta :: beta_args where
  "ex_beta =
     \<lparr>beta_hat = [Finite 0, Finite 0],
      beta_columns = [(Str ''CST'', ''fa'', Flt (Finite 0)), (Str ''CST'', ''fa'', Flt (Finite 1))],
      workdir_in = ''/d'', workdir_out = ''/o'',
      fn_nodes_in = ''nodes.csv'', fn_subjects_in = ''subjects.csv'',
      fn_nodes_out = ''nodes.csv'', fn_subjects_out = ''subjects.csv'',
      scale_beta = False\<rparr>"

section \<open>Properties of load_afq_data\<close>

subsection \<open>A supervised call, stage by stage\<close>

lemma load_supervised:
  assumes "\<not> unsupervised a"
  shows "load_afq_data lib fs a =
    (case merged_targets lib fs a of
       Inl e \<Rightarrow> Inl e
     | Inr (m, sess, t) \<Rightarrow>
         (case select_targets (target_cols a) t of
            Inl e \<Rightarrow> Inl e
          | Inr y \<Rightarrow>
              (case label_encode (label_encode_cols a) (target_cols a) y of
                 Inl e \<Rightarrow> Inl e
               | Inr (y', cl) \<Rightarrow>
                   (case y' of
                      None \<Rightarrow> Inl (UnboundLocalError ''y'')
                    | Some yf \<Rightarrow> Inr (supervised_output a m sess (squeeze (to_numpy yf)) cl)))))"
  using assms
  by (auto simp: load_afq_data_def merged_targets_def encoded_targets_def
      split: sum.splits prod.splits option.splits)

subsection \<open>Missing target columns\<close>

text \<open>
  Claim C10, as amended. A call with \<^verbatim>\<open>unsupervised=False\<close> and no \<^verbatim>\<open>target_cols\<close>
  never returns. Once the nodes table, the mapper and the subjects table have loaded,
  it fails at line 173 with the unbound variable \<open>y\<close> when \<^verbatim>\<open>label_encode_cols\<close> is
  missing too, and at line 162 with the TypeError of \<^verbatim>\<open>set(None)\<close> when
  \<^verbatim>\<open>label_encode_cols\<close> is given.
\<close>

theorem no_target_cols_fails:
  assumes "\<not> unsupervised a" and "target_cols a = None"
  shows "(\<exists>e. load_afq_data lib fs a = Inl e) \<and>
         (\<forall>m sess t. merged_targets lib fs a = Inr (m, sess, t) \<longrightarrow>
            load_afq_data lib fs a =
              Inl (case label_encode_cols a of
                     None \<Rightarrow> UnboundLocalError ''y''
                   | Some lc \<Rightarrow> TypeError ''NoneType object is not iterable''))"
  using assms
  by (auto simp: load_supervised select_targets_def label_encode_def
      split: sum.splits prod.splits option.splits)

theorem no_target_cols_fails_witness:
  "\<not> unsupervised (ex_args\<lparr>target_cols := None, label_encode_cols := None\<rparr>) \<and>
   target_cols (ex_args\<lparr>target_cols := None, label_encode_cols := None\<rparr>) = None \<and>
   load_afq_data ex_lib (ex_fs nodes_two subjects_two)
     (ex_args\<lparr>target_cols := None, label_encode_cols := None\<rparr>) = Inl (UnboundLocalError ''y'')"
proof -
  let ?a = "ex_args\<lparr>target_cols := None, label_encode_cols := None\<rparr>"
  have u: "\<not> unsupervised ?a" by (simp add: ex_args_def)
  have t: "target_cols ?a = None" by simp
  have m: "merged_targets ex_lib (ex_fs nodes_two subjects_two) ?a =
     Inr (\<lparr>mapper_X = (), mapper_groups = (), mapper_feature_names = [],
            mapper_subjects = [Str ''A'', Str ''B'']\<rparr>, None,
          \<lparr>columns = [''sex'', ''age''], index = [Str ''A'', Str ''B''],
            rows = [[Flt NaN, Flt NaN], [Str ''M'', Flt (Finite 30)]]\<rparr>)"
    by code_simp
  from no_target_cols_fails [OF u t, of ex_lib "ex_fs nodes_two subjects_two"] m u t
  show ?thesis by simp
qed

text \<open>
  Claim C10 as stated says the failure is always the unbound variable. With
  \<^verbatim>\<open>label_encode_cols=[]\<close> the call fails with a TypeError instead.
\<close>

theorem no_target_cols_type_error:
  "\<not> unsupervised (ex_args\<lparr>target_cols := None, label_encode_cols := Some []\<rparr>) \<and>
   target_cols (ex_args\<lparr>target_cols := None, label_encode_cols := Some []\<rparr>) = None \<and>
   load_afq_data ex_lib (ex_fs nodes_two subjects_two)
     (ex_args\<lparr>target_cols := None, label_encode_cols := Some []\<rparr>)
   = Inl (TypeError ''NoneType object is not iterable'')"
  by code_simp

subsection \<open>The subset check of label_encode_cols\<close>

lemma read_csv_not_subset_error: "read_csv fs fn \<noteq> Inl subset_error"
  by (simp add: read_csv_def subset_error_def split: option.splits content.splits)

lemma first_error_not_subset_error:
  "\<forall>r\<in>set rs. r \<noteq> Inl subset_error \<Longrightarrow> first_error rs \<noteq> Inl subset_error"
  by (induction rs rule: first_error.induct) (auto split: sum.splits)

lemma add_str_not_subset_error: "add_str c t \<noteq> Inl subset_error"
  by (cases "(c, t)" rule: add_str.cases) (simp_all add: subset_error_def)

lemma concat_ids_not_subset_error: "concat_ids lib nodes \<noteq> Inl subset_error"
proof -
  have "first_error (map (\<lambda>(a, b). add_str a (astype_str lib b)) zs) \<noteq> Inl subset_error" for zs
    by (rule first_error_not_subset_error) (auto simp: add_str_not_subset_error)
  then show ?thesis
    by (auto simp: concat_ids_def getitem_def subset_error_def split: sum.splits)
qed

lemma loc_columns_not_subset_error: "loc_columns df labels \<noteq> Inl subset_error"
  by (simp add: loc_columns_def subset_error_def split: list.splits)

lemma prepare_nodes_not_subset_error: "prepare_nodes lib a nodes0 \<noteq> Inl subset_error"
  by (auto simp: prepare_nodes_def Let_def concat_ids_not_subset_error
      loc_columns_not_subset_error split: sum.splits option.splits if_splits)

lemma other_errors_not_subset_error:
  "ValueError (CHR ''I'' # s) \<noteq> subset_error"
  "MapperError \<noteq> subset_error"
  "KeyError k \<noteq> subset_error"
  "TypeError s \<noteq> subset_error"
  "UnboundLocalError v \<noteq> subset_error"
  by (simp_all add: subset_error_def)

lemma merged_targets_not_subset_error: "merged_targets lib fs a \<noteq> Inl subset_error"
  by (auto simp: merged_targets_def mapper_input_def load_targets_def read_csv_index_def
      read_csv_not_subset_error prepare_nodes_not_subset_error other_errors_not_subset_error
      split: sum.splits option.splits prod.splits if_splits)

lemma encode_loop_not_subset_error: "encode_loop cols y cl \<noteq> Inl subset_error"
  by (induction cols y cl rule: encode_loop.induct)
    (auto simp: label_column_def getitem_def fit_transform_labels_def subset_error_def Let_def
      split: option.splits sum.splits prod.splits if_splits)

text \<open>
  Claim C2. In a supervised call with \<^verbatim>\<open>target_cols\<close> and \<^verbatim>\<open>label_encode_cols\<close>
  given: when \<^verbatim>\<open>label_encode_cols\<close> is not a subset of \<^verbatim>\<open>target_cols\<close> the call
  fails, and once the tables have loaded and the target columns are columns of the
  subjects table, it fails with the ValueError of lines 163 to 166; when it is a subset,
  that error is never raised.
\<close>

theorem label_encode_cols_subset_check:
  assumes "\<not> unsupervised a" and "target_cols a = Some tc" and "label_encode_cols a = Some lc"
  shows "(\<not> set lc \<subseteq> set tc \<longrightarrow>
            (\<exists>e. load_afq_data lib fs a = Inl e) \<and>
            (\<forall>m sess t. merged_targets lib fs a = Inr (m, sess, t) \<longrightarrow>
               set tc \<subseteq> set (columns t) \<longrightarrow> load_afq_data lib fs a = Inl subset_error)) \<and>
         (set lc \<subseteq> set tc \<longrightarrow> load_afq_data lib fs a \<noteq> Inl subset_error)"
proof (intro conjI impI allI)
  assume ns: "\<not> set lc \<subseteq> set tc"
  show "\<exists>e. load_afq_data lib fs a = Inl e"
    using assms ns
    by (auto simp: load_supervised select_targets_def label_encode_def
        split: sum.splits prod.splits option.splits)
next
  fix m sess t
  assume ns: "\<not> set lc \<subseteq> set tc" and mt: "merged_targets lib fs a = Inr (m, sess, t)"
    and tc: "set tc \<subseteq> set (columns t)"
  from tc have "filter (\<lambda>l. l \<notin> set (columns t)) tc = []"
    by (auto simp: filter_empty_conv)
  then obtain y where "loc_columns t tc = Inr y"
    by (simp add: loc_columns_def)
  with assms ns mt show "load_afq_data lib fs a = Inl subset_error"
    by (simp add: load_supervised select_targets_def label_encode_def)
next
  assume s: "set lc \<subseteq> set tc"
  show "load_afq_data lib fs a \<noteq> Inl subset_error"
    using assms s
    by (auto simp: load_supervised select_targets_def label_encode_def
        merged_targets_not_subset_error loc_columns_not_subset_error
        encode_loop_not_subset_error other_errors_not_subset_error
        split: sum.splits prod.splits option.splits)
qed

theorem label_encode_cols_subset_check_witness:
  "\<not> unsupervised (ex_args\<lparr>target_cols := Some [''sex''], label_encode_cols := Some [''age'']\<rparr>) \<and>
   \<not> set [''age''] \<subseteq> set [''sex''] \<and>
   load_afq_data ex_lib (ex_fs nodes_two subjects_two)
     (ex_args\<lparr>target_cols := Some [''sex''], label_encode_cols := Some [''age'']\<rparr>) = Inl subset_error \<and>
   \<not> unsupervised ex_args \<and> set [''sex''] \<subseteq> set [''sex'', ''age''] \<and>
   load_afq_data ex_lib (ex_fs nodes_two subjects_two) ex_args \<noteq> Inl subset_error"
proof -
  let ?a = "ex_args\<lparr>target_cols := Some [''sex''], label_encode_cols := Some [''age'']\<rparr>"
  let ?fs = "ex_fs nodes_two subjects_two"
  have u: "\<not> unsupervised ?a" "\<not> unsupervised ex_args" by (simp_all add: ex_args_def)
  have t: "target_cols ?a = Some [''sex'']" "label_encode_cols ?a = Some [''age'']" by simp_all
  have t': "target_cols ex_args = Some [''sex'', ''age'']" "label_encode_cols ex_args = Some [''sex'']"
    by (simp_all add: ex_args_def)
  have m: "merged_targets ex_lib ?fs ?a =
     Inr (\<lparr>mapper_X = (), mapper_groups = (), mapper_feature_names = [],
            mapper_subjects = [Str ''A'', Str ''B'']\<rparr>, None,
          \<lparr>columns = [''sex'', ''age''], index = [Str ''A'', Str ''B''],
            rows = [[Flt NaN, Flt NaN], [Str ''M'', Flt (Finite 30)]]\<rparr>)"
    by code_simp
  have ns: "\<not> set [''age''] \<subseteq> set [''sex'']" and s: "set [''sex''] \<subseteq> set [''sex'', ''age'']"
    by simp_all
  from label_encode_cols_subset_check [OF u(1) t, of ex_lib ?fs] m ns
  have 1: "load_afq_data ex_lib ?fs ?a = Inl subset_error" by simp
  from label_encode_cols_subset_check [OF u(2) t', of ex_lib ?fs] s
  have 2: "load_afq_data ex_lib ?fs ex_args \<noteq> Inl subset_error" by simp
  from 1 2 u ns s show ?thesis by simp
qed

subsection \<open>The shape of the target\<close>

text \<open>
  Claim C4 on a data set with a single subject and one target column: line 173 squeezes
  the row axis as well, and \<open>y\<close> is a 0-dimensional array, not a sequence of length one.
\<close>

theorem single_subject_target_is_scalar:
  "load_afq_data ex_lib (ex_fs nodes_one subjects_one)
     (ex_args\<lparr>target_cols := Some [''age''], label_encode_cols := None\<rparr>)
   = Inr (Out7 () (Array0 (Flt (Finite 30))) () [] [] [Str ''A''] [])"
  by code_simp

subsection \<open>Columns and cells of frames\<close>

lemma columns_drop_columns: "columns (drop_columns ls df) = filter (\<lambda>c. c \<notin> set ls) (columns df)"
  by (simp add: drop_columns_def)


lemma rows_drop_columns: "rows (drop_columns ls df) = map (cells_not_of ls (columns df)) (rows df)"
  by (simp add: drop_columns_def)



lemma zip_filter_fst:
  "zip (filter P cols) (map snd (filter (\<lambda>(c, v). P c) (zip cols r))) =
     filter (\<lambda>(c, v). P c) (zip cols r)"
proof (induction cols arbitrary: r)
  case Nil
  then show ?case by simp
next
  case (Cons c cols)
  then show ?case by (cases r) auto
qed

lemma cells_of_dropped:
  assumes "l \<notin> set ls"
  shows "cells_of l (filter (\<lambda>c. c \<notin> set ls) cols) (cells_not_of ls cols r) = cells_of l cols r"
proof -
  have "filter (\<lambda>(c, v). c = l) (filter (\<lambda>(c, v). c \<notin> set ls) (zip cols r)) =
        filter (\<lambda>(c, v). c = l) (zip cols r)"
    using assms by (auto simp: filter_filter intro!: filter_cong)
  then show ?thesis
    by (simp add: cells_of_def cells_not_of_def zip_filter_fst)
qed

lemma unnamed_not_session: "\<not> contains ''Unnamed:'' ''sessionID''"
  by simp





lemma filter_eq_singleton: "distinct cols \<Longrightarrow> l \<in> set cols \<Longrightarrow> filter (\<lambda>c. c = l) cols = [l]"
  by (induction cols) (auto simp: filter_empty_conv)




lemma length_filter_zip:
  "length cols = length r \<Longrightarrow>
     length (filter (\<lambda>(c, v). P c) (zip cols r)) = length (filter P cols)"
  by (induction cols r rule: list_induct2) simp_all

lemma length_cells_of:
  "length r = length cols \<Longrightarrow> length (cells_of l cols r) = length (filter (\<lambda>c. c = l) cols)"
  using length_filter_zip [of cols r "\<lambda>c. c = l"] by (simp add: cells_of_def)


lemma length_column:
  assumes "length (filter (\<lambda>c. c = l) cols) = 1"
    and "list_all (\<lambda>r. length r = length cols) rs"
  shows "length (concat (map (cells_of l cols) rs)) = length rs"
  using assms(2) by (induction rs) (simp_all add: length_cells_of assms(1))

lemma length_column_values:
  assumes "length (filter (\<lambda>c. c = l) (columns df)) = 1" and "rect df"
  shows "length (column_values df l) = length (rows df)"
  using length_column [OF assms(1)] assms(2) by (simp add: column_values_def rect_def)

lemma loc_columns_columns:
  "loc_columns df labels = Inr df' \<Longrightarrow> set (columns df') \<subseteq> set (columns df)"
  by (auto simp: loc_columns_def split: list.splits)

lemma prepare_nodes_sessions:
  assumes "prepare_nodes lib a nodes0 = Inr (nodes, sess)"
  shows "sess = (if ''sessionID'' \<in> set (columns nodes0)
                 then Some (column_values nodes0 ''sessionID'')
                 else None)"
    and "''sessionID'' \<notin> set (columns nodes)"
proof -
  let ?n1 = "drop_columns (unnamed_cols nodes0) nodes0"
  have u: "''sessionID'' \<notin> set (unnamed_cols nodes0)"
    by (simp add: unnamed_cols_def)
  have "cells_of ''sessionID'' (columns ?n1) (cells_not_of (unnamed_cols nodes0) (columns nodes0) r)
          = cells_of ''sessionID'' (columns nodes0) r" for r
    unfolding columns_drop_columns by (rule cells_of_dropped [OF u])
  then have col: "column_values ?n1 ''sessionID'' =
      column_values nodes0 ''sessionID''"
    by (simp add: column_values_def rows_drop_columns o_def)
  have mem: "''sessionID'' \<in> set (columns ?n1) \<longleftrightarrow> ''sessionID'' \<in> set (columns nodes0)"
    using u by (simp add: columns_drop_columns)
  from assms have "sess = (case getitem ?n1 ''sessionID'' of Inl e \<Rightarrow> None | Inr se \<Rightarrow> Some se)"
    by (auto simp: prepare_nodes_def Let_def split: sum.splits option.splits if_splits)
  then show "sess = (if ''sessionID'' \<in> set (columns nodes0)
                 then Some (column_values nodes0 ''sessionID'')
                 else None)"
    using col mem by (simp add: getitem_def)
  from assms obtain n2 where
    "nodes = drop_columns [''sessionID''] n2 \<or>
     (\<exists>ms. loc_columns (drop_columns [''sessionID''] n2) (key_cols @ ms) = Inr nodes)"
    by (auto simp: prepare_nodes_def Let_def split: sum.splits option.splits if_splits)
  then show "''sessionID'' \<notin> set (columns nodes)"
    using loc_columns_columns [of "drop_columns [''sessionID''] n2" _ nodes]
    by (auto simp: columns_drop_columns)
qed

lemma load_returns:
  assumes "load_afq_data lib fs a = Inr out"
  shows "\<exists>nodes sess m. mapper_input lib fs a = Inr (nodes, sess) \<and>
           fit_transform lib nodes = Some m \<and> out_subjects out = mapper_subjects m \<and>
           out_sessions out = (if return_sessions a then Some sess else None)"
  using assms
  by (auto simp: load_afq_data_def unsupervised_output_def supervised_output_def Let_def
      split: sum.splits prod.splits option.splits if_splits)

subsection \<open>The metric subset\<close>




subsection \<open>The sessions\<close>

text \<open>
  Claim C9, as amended. For a nodes table with a \<^verbatim>\<open>sessionID\<close> column and
  \<^verbatim>\<open>return_sessions=True\<close>, a call that returns hands back the \<^verbatim>\<open>sessionID\<close> column
  of the nodes table as it was read, one entry per row of the long table in the order of
  its rows, and the frame handed to the mapper has no \<^verbatim>\<open>sessionID\<close> column. The
  subjects are those of the mapper.
\<close>

theorem sessions_are_the_long_column:
  assumes "read_csv fs (nodes_path lib a) = Inr nodes0"
    and "''sessionID'' \<in> set (columns nodes0)"
    and "return_sessions a"
    and "load_afq_data lib fs a = Inr out"
  shows "out_sessions out =
           Some (Some (column_values nodes0 ''sessionID'')) \<and>
         (distinct (columns nodes0) \<and> rect nodes0 \<longrightarrow>
            length (column_values nodes0 ''sessionID'') =
              length (rows nodes0)) \<and>
         (\<exists>nodes sess m. mapper_input lib fs a = Inr (nodes, sess) \<and>
            ''sessionID'' \<notin> set (columns nodes) \<and>
            fit_transform lib nodes = Some m \<and> out_subjects out = mapper_subjects m)"
proof -
  from load_returns [OF assms(4)] assms(3) obtain nodes sess m where
    mi: "mapper_input lib fs a = Inr (nodes, sess)" and ft: "fit_transform lib nodes = Some m"
    and su: "out_subjects out = mapper_subjects m" and se: "out_sessions out = Some sess"
    by auto
  from mi assms(1) have p: "prepare_nodes lib a nodes0 = Inr (nodes, sess)"
    by (simp add: mapper_input_def)
  from prepare_nodes_sessions [OF p] assms(2)
  have 1: "sess = Some (column_values nodes0 ''sessionID'')"
    and 2: "''sessionID'' \<notin> set (columns nodes)" by simp_all
  have 3: "length (column_values nodes0 ''sessionID'') =
              length (rows nodes0)" if "distinct (columns nodes0)" "rect nodes0"
  proof -
    from that(1) assms(2) have "length (filter (\<lambda>c. c = ''sessionID'') (columns nodes0)) = 1"
      by (simp add: filter_eq_singleton)
    from length_column_values [OF this that(2)] show ?thesis .
  qed
  from 1 2 3 se mi ft su show ?thesis by blast
qed

theorem sessions_are_the_long_column_witness:
  "read_csv (ex_fs nodes_one subjects_one) (nodes_path ex_lib (ex_args\<lparr>return_sessions := True\<rparr>))
     = Inr \<lparr>columns = header nodes_one, index = RangeIndex 2, rows = body nodes_one\<rparr> \<and>
   ''sessionID'' \<in> set (header nodes_one) \<and>
   return_sessions (ex_args\<lparr>return_sessions := True\<rparr>) \<and>
   distinct (header nodes_one) \<and>
   rect \<lparr>columns = header nodes_one, index = RangeIndex 2, rows = body nodes_one\<rparr> \<and>
   (\<exists>out. load_afq_data ex_lib (ex_fs nodes_one subjects_one) (ex_args\<lparr>return_sessions := True\<rparr>)
            = Inr out \<and>
          out_sessions out = Some (Some [Str ''s1'', Str ''s1'']) \<and>
          out_subjects out = [Str ''A''])"
proof -
  let ?fs = "ex_fs nodes_one subjects_one"
  let ?a = "ex_args\<lparr>return_sessions := True\<rparr>"
  let ?n0 = "\<lparr>columns = header nodes_one, index = RangeIndex 2, rows = body nodes_one\<rparr>"
  let ?out = "Out8 () (Array1 [Flt (Finite 0), Flt (Finite 30)]) () [] []
            [Str ''A''] (Some [Str ''s1'', Str ''s1'']) [(''sex'', [Str ''M''])] :: (unit, unit) loaded"
  have r: "read_csv ?fs (nodes_path ex_lib ?a) = Inr ?n0" by code_simp
  have s: "''sessionID'' \<in> set (columns ?n0)" by code_simp
  have rs: "return_sessions ?a" by simp
  have l: "load_afq_data ex_lib ?fs ?a = Inr ?out" by code_simp
  have d: "distinct (header nodes_one)" by code_simp
  have re: "rect ?n0" by code_simp
  have c: "column_values ?n0 ''sessionID'' = [Str ''s1'', Str ''s1'']"
    by code_simp
  from sessions_are_the_long_column [OF r s rs l] c
  have "out_sessions ?out = Some (Some [Str ''s1'', Str ''s1''])" by simp
  with r s rs l d re show ?thesis by simp
qed

text \<open>
  Claim C9 as stated has one session per subject. A table with two rows for its one
  subject gives two sessions and one subject.
\<close>

theorem sessions_not_per_subject:
  "load_afq_data ex_lib (ex_fs nodes_one subjects_one) (ex_args\<lparr>return_sessions := True\<rparr>) =
     Inr (Out8 () (Array1 [Flt (Finite 0), Flt (Finite 30)]) () [] []
            [Str ''A''] (Some [Str ''s1'', Str ''s1'']) [(''sex'', [Str ''M''])])"
  by code_simp

subsection \<open>The join and the rows of the targets\<close>


lemma filter_key_distinct:
  "distinct (map fst zs) \<Longrightarrow>
     filter (\<lambda>(k, r). k = s) zs = (case map_of zs s of None \<Rightarrow> [] | Some r \<Rightarrow> [(s, r)])"
proof (induction zs)
  case Nil
  then show ?case by simp
next
  case (Cons z zs)
  obtain k r where z: "z = (k, r)" by (cases z)
  show ?case
  proof (cases "k = s")
    case True
    with Cons.prems z have "s \<notin> fst ` set zs" by simp
    then have "filter (\<lambda>(k, r). k = s) zs = []"
      by (force simp: filter_empty_conv)
    with True z show ?thesis by simp
  next
    case False
    with Cons z show ?thesis by simp
  qed
qed

lemma merge_left_distinct:
  assumes "distinct (index t)"
  shows "merge_left subjects t =
           \<lparr>columns = columns t, index = subjects, rows = map (joined_row t) subjects\<rparr>"
proof -
  have d: "distinct (map fst (zip (index t) (rows t)))"
    using assms by (simp add: map_fst_zip_take)
  have one: "(case filter (\<lambda>(k, r). k = s) (zip (index t) (rows t)) of
               [] \<Rightarrow> [(s, replicate (length (columns t)) (Flt NaN))]
             | m # ms \<Rightarrow> m # ms) = [(s, joined_row t s)]" for s
    by (simp add: filter_key_distinct [OF d] joined_row_def split: option.splits)
  have "concat (map (\<lambda>s. [(s, joined_row t s)]) subjects) = map (\<lambda>s. (s, joined_row t s)) subjects"
    by (induction subjects) simp_all
  then show ?thesis
    by (simp add: merge_left_def one o_def)
qed



lemma rect_merge_left:
  assumes "distinct (index t)" "rect t"
  shows "rect (merge_left subjects t)"
proof -
  have "length (joined_row t s) = length (columns t)" for s
  proof (cases "map_of (zip (index t) (rows t)) s")
    case None
    then show ?thesis by (simp add: joined_row_def)
  next
    case (Some r)
    then have "r \<in> set (rows t)" by (auto dest: map_of_SomeD set_zip_rightD)
    with assms(2) Some show ?thesis by (simp add: joined_row_def rect_def list_all_iff)
  qed
  then show ?thesis
    by (simp add: merge_left_distinct [OF assms(1)] rect_def list_all_iff)
qed



subsection \<open>Setting a column\<close>













subsection \<open>The encoder\<close>














subsection \<open>A supervised call that returns\<close>



subsection \<open>Row alignment of the targets\<close>




subsection \<open>Label encoding\<close>




section \<open>Properties of output_beta_to_afq\<close>

subsection \<open>The guard on the output directory\<close>

text \<open>
  Claim C5. When the input and the output directory are the same existing directory,
  the call fails with the ValueError of lines 245 to 249 and leaves the file system as it
  found it: no file was opened for reading and none was written.
\<close>

theorem same_directory_guard:
  assumes "inode fs (abspath lib (workdir_in b)) = Some d"
      and "inode fs (abspath lib (workdir_out b)) = Some d"
  shows "output_beta_to_afq lib b fs =
           (Inl (ValueError ''output directory equals input directory''), fs)"
  using assms by (simp add: output_beta_to_afq_def samefile_def Let_def)

theorem same_directory_guard_witness:
  "inode (ex_fs nodes_two subjects_two)
     (abspath ex_lib (workdir_in (ex_beta\<lparr>workdir_out := ''/d''\<rparr>))) = Some 1 \<and>
   inode (ex_fs nodes_two subjects_two)
     (abspath ex_lib (workdir_out (ex_beta\<lparr>workdir_out := ''/d''\<rparr>))) = Some 1 \<and>
   output_beta_to_afq ex_lib (ex_beta\<lparr>workdir_out := ''/d''\<rparr>) (ex_fs nodes_two subjects_two) =
     (Inl (ValueError ''output directory equals input directory''),
      ex_fs nodes_two subjects_two)"
proof -
  let ?b = "ex_beta\<lparr>workdir_out := ''/d''\<rparr>"
  have 1: "inode (ex_fs nodes_two subjects_two) (abspath ex_lib (workdir_in ?b)) = Some 1"
    by (simp add: ex_fs_def ex_lib_def ex_beta_def)
  have 2: "inode (ex_fs nodes_two subjects_two) (abspath ex_lib (workdir_out ?b)) = Some 1"
    by (simp add: ex_fs_def ex_lib_def ex_beta_def)
  from same_directory_guard [OF 1 2] 1 2 show ?thesis by simp
qed

subsection \<open>The frame of the coefficients\<close>




subsection \<open>The row added to the subjects table\<close>





subsection \<open>The files that are written\<close>








subsection \<open>Scaling\<close>

lemmas eval_defs =
  output_beta_to_afq_def samefile_def join_def read_csv_def opened_def
  beta_frame_def unstack_metric_def key_metric_def key_position_def position_key_def RangeIndex_def
  assign_scalar_def loc_columns_def cells_of_def cells_not_of_def concat_rows_def to_csv_def write_table_def
  read_csv_index0_def loc_set_row_def subject_row_def to_csv_index_def copyfile_def Let_def
  scale_def scale_tract_def tract_stats_def slice_stats_def tract_slice_def in_tract_def py_eq_def
  drop_strict_def drop_columns_def getitem_def column_values_def scale_value_def
  fl_mean_def fl_std_def fl_sum_def fl_sub_def setitem_def
  ex_lib_def ex_beta_def ex_fs_def nodes_two_def subjects_two_def


text \<open>
  Claim C6 on a tract whose values are constant in the nodes table and in the
  coefficients: both deviations are zero, their ratio is NaN, which line 297 does not
  replace, and the values written for \<^verbatim>\<open>beta_hat\<close> are NaN.
\<close>

theorem zero_deviation_gives_nan:
  "scale_beta (ex_beta\<lparr>scale_beta := True\<rparr>) \<and>
   fl_std [Finite 1, Finite 1, Finite 1] = Finite 0 \<and> fl_std [Finite 0, Finite 0] = Finite 0 \<and>
   files (snd (output_beta_to_afq ex_lib (ex_beta\<lparr>scale_beta := True\<rparr>)
                 (ex_fs nodes_two subjects_two))) ''/o/nodes.csv'' =
   Some (Csv \<lparr>header = [''subjectID'', ''tractID'', ''nodeID'', ''fa''],
              body = [[Str ''A'', Str ''CST'', Flt (Finite 0), Flt (Finite 1)],
                      [Str ''A'', Str ''CST'', Flt (Finite 1), Flt (Finite 1)],
                      [Str ''B'', Str ''CST'', Flt (Finite 0), Flt (Finite 1)],
                      [Str ''beta_hat'', Str ''CST'', Flt (Finite 0), Flt NaN],
                      [Str ''beta_hat'', Str ''CST'', Flt (Finite 1), Flt NaN]]\<rparr>)"
  by (simp add: eval_defs)

text \<open>
  Line 295 on finite values: the formula of the comment when the deviation of the
  coefficients is not zero, the factor 1 when it is zero and that of the nodes table is
  not, and NaN when both are zero.
\<close>

theorem scale_value_cases:
  "scale_value (Finite fm, Finite fs) (Finite bm, Finite bs) (Finite x) =
     (if bs = 0 then (if fs = 0 then NaN else Finite (fm + (x - bm)))
      else Finite (fm + (x - bm) * (fs / bs)))"
  by (simp add: scale_value_def fl_sub_def signed_inf_def)

end
